theory Spec2Isabelle
  imports Complex_Main
begin

section \<open>The drawing orchestrator of rna\_draw (src/rna\_draw/draw.py)\<close>

text \<open>
  The theory embeds \<^verbatim>\<open>draw.py\<close>: the class \<^verbatim>\<open>RNADrawer\<close> (its constructor,
  \<^verbatim>\<open>draw\<close>, \<^verbatim>\<open>__setup\<close> and \<^verbatim>\<open>__render\<close>) and the module functions
  \<^verbatim>\<open>__get_data_from_args\<close>, \<^verbatim>\<open>__get_render_type\<close>, \<^verbatim>\<open>__rna_draw_from_args\<close>,
  \<^verbatim>\<open>rna_draw\<close> and \<^verbatim>\<open>main\<close>.

  Conventions.
  \<^item> A Python exception is a value of type \<open>error\<close>; a call that may raise returns
    \<open>error + 'a\<close> (\<open>Inl\<close> the exception), and the first \<open>Inl\<close> ends the function, as the
    uncaught exception does (\<^verbatim>\<open>draw.py\<close> has no \<^verbatim>\<open>try\<close>).
  \<^item> The object \<^verbatim>\<open>self\<close> is a record passed in and returned updated.
  \<^item> The modules \<^verbatim>\<open>colorer\<close>, \<^verbatim>\<open>render_rna\<close> and \<^verbatim>\<open>parameters\<close>, and the libraries
    \<^verbatim>\<open>argparse\<close>, \<^verbatim>\<open>scipy\<close> and \<^verbatim>\<open>matplotlib\<close> are called by \<^verbatim>\<open>draw.py\<close> and are
    not part of it. What they return is a parameter of the model: the record
    \<open>collaborators\<close>. Every theorem about the program holds for all collaborators.
  \<^item> What \<^verbatim>\<open>draw.py\<close> tells the renderer object is recorded in the renderer record
    (limits, figure size, the arguments of \<^verbatim>\<open>r.draw\<close>); this record is the figure
    \<^verbatim>\<open>r.fig\<close> that \<^verbatim>\<open>__render\<close> returns.
  \<^item> The two calls with an effect outside the object, \<^verbatim>\<open>curve_fit\<close> and
    \<^verbatim>\<open>savefig\<close>, append an event to a trace.
  \<^item> Python floats are idealised as real numbers, \<^verbatim>\<open>**\<close> as \<open>powr\<close> (the two
    agree on a positive base); strings are ASCII.
\<close>

subsection \<open>Values\<close>

datatype error = ValueError string | Raised string

datatype RenderType = RES_TYPE | PAIRED | STRAND

text \<open>The fields of \<^verbatim>\<open>parameters.DrawParameters\<close> that \<^verbatim>\<open>__render\<close> reads.\<close>

record DrawParameters =
  NODE_R :: real
  PRIMARY_SPACE :: real
  PAIR_SPACE :: real
  CELL_PADDING :: real
  RENDER_IN_LETTERS :: bool

text \<open>The namespace that \<^verbatim>\<open>get_parser().parse_args\<close> returns: one field per option.\<close>

record args =
  args_ss :: string
  args_seq :: "string option"
  args_out :: string
  args_color_str :: "string option"
  args_render_type :: "string option"
  args_color_palette :: "string option"
  args_default_color :: "string option"
  args_data_str :: "string option"
  args_data_file :: "string option"
  args_data_palette :: "string option"
  args_data_vmin :: "string option"
  args_data_vmax :: "string option"
  args_data_ignore_restype :: "string option"

text \<open>An entry of \<^verbatim>\<open>pairs\<close>: the dictionary with keys from, to, p and color.\<close>

record 'c edge =
  e_from :: int
  e_to :: int
  e_p :: real
  e_color :: 'c

text \<open>The arguments of \<^verbatim>\<open>r.draw(x, y, colors, pairs, seq, render_in_letters)\<close>.\<close>

record 'c draw_call =
  dc_x :: real
  dc_y :: real
  dc_colors :: "'c list"
  dc_pairs :: "'c edge list"
  dc_seq :: string
  dc_letters :: bool

text \<open>
  The renderer object \<^verbatim>\<open>r\<close> as far as \<^verbatim>\<open>__render\<close> reads and writes it: the
  coordinate arrays and the size that \<^verbatim>\<open>setup_tree\<close> computes, and what the axes and
  the figure have been told. \<open>None\<close> is "not set by \<^verbatim>\<open>draw.py\<close>". The fields
  \<open>xarray\<close> and \<open>yarray\<close> are the attributes \<^verbatim>\<open>xarray_\<close> and \<^verbatim>\<open>yarray_\<close>.
\<close>

record 'c RNARenderer =
  xarray :: "real list"
  yarray :: "real list"
  tree_size :: "real list"
  ax_axis :: "string option"
  ax_xlim :: "(real \<times> real) option"
  ax_ylim :: "(real \<times> real) option"
  fig_size_inches :: "(real \<times> real) option"
  drawn :: "'c draw_call option"

text \<open>The effects outside the objects: a fit of the size model, an image file written.\<close>

datatype event = CurveFit "int list" "int list" | SaveFig string

text \<open>A value of \<^verbatim>\<open>**kwargs\<close>: a string, a \<^verbatim>\<open>Path\<close> (with its \<^verbatim>\<open>str\<close>), or another object.\<close>

datatype pyval = Str string | Path string | Obj nat

text \<open>
  The code that \<^verbatim>\<open>draw.py\<close> calls and does not define. \<open>'c\<close> is a color, \<open>'d\<close> a
  \<^verbatim>\<open>Data\<close> object, \<open>'s\<close> the state of a \<^verbatim>\<open>Colorer\<close> object.
\<close>

record ('c, 'd, 's) collaborators =
  Colorer :: 's
  colorer_color_palette :: "'s \<Rightarrow> string \<Rightarrow> error + 's"
  colorer_get_rgb_colors ::
    "'s \<Rightarrow> string \<Rightarrow> string \<Rightarrow> string option \<Rightarrow> 'd option \<Rightarrow> RenderType option \<Rightarrow> 'c option
      \<Rightarrow> (error + 'c list) \<times> 's"
  parse_color_code :: "string \<Rightarrow> error + 'c"
  Data ::
    "string option \<Rightarrow> string option \<Rightarrow> string option \<Rightarrow> string option \<Rightarrow> string option
      \<Rightarrow> string option \<Rightarrow> error + 'd"
  DEFAULT_COLORS_e :: 'c
  DrawParameters_new :: DrawParameters
  get_pairmap_from_secstruct :: "string \<Rightarrow> error + int list"
  setup_tree :: "string \<Rightarrow> real \<Rightarrow> real \<Rightarrow> real \<Rightarrow> error + real list \<times> real list \<times> real list"
  curve_fit :: "int list \<Rightarrow> int list \<Rightarrow> error + real \<times> real \<times> real"
  set_size_inches :: "real \<Rightarrow> real \<Rightarrow> error option"
  renderer_draw :: "'c RNARenderer \<Rightarrow> error option"
  savefig :: "string \<Rightarrow> 'c RNARenderer \<Rightarrow> error option"
  parse_args :: "pyval list \<Rightarrow> error + args"

text \<open>The object \<^verbatim>\<open>self\<close> of class \<^verbatim>\<open>RNADrawer\<close>: its two private attributes.\<close>

record 's RNADrawer =
  self_colorer :: 's
  self_draw_params :: DrawParameters

subsection \<open>Built-ins and the propagation of exceptions\<close>

text \<open>
  A statement that may raise, followed by the rest of the function: the exception ends
  the function, a value is handed on. \<open>bind_err\<close> is for code without effects,
  \<open>bind_in\<close> and \<open>check_in\<close> carry the trace \<open>w\<close> that holds when the statement
  raises.
\<close>

definition bind_err :: "error + 'a \<Rightarrow> ('a \<Rightarrow> error + 'b) \<Rightarrow> error + 'b" where
  "bind_err m k = (case m of Inl e \<Rightarrow> Inl e | Inr x \<Rightarrow> k x)"

definition bind_in ::
  "error + 'a \<Rightarrow> 'w \<Rightarrow> ('a \<Rightarrow> (error + 'b) \<times> 'w) \<Rightarrow> (error + 'b) \<times> 'w" where
  "bind_in m w k = (case m of Inl e \<Rightarrow> (Inl e, w) | Inr x \<Rightarrow> k x)"

definition check_in ::
  "error option \<Rightarrow> 'w \<Rightarrow> (error + 'b) \<times> 'w \<Rightarrow> (error + 'b) \<times> 'w" where
  "check_in m w k = (case m of Some e \<Rightarrow> (Inl e, w) | None \<Rightarrow> k)"

text \<open>\<^verbatim>\<open>min\<close> and \<^verbatim>\<open>max\<close> of a sequence raise \<^verbatim>\<open>ValueError\<close> on the empty one.\<close>

definition py_min :: "real list \<Rightarrow> error + real" where
  "py_min xs = (case xs of
      [] \<Rightarrow> Inl (ValueError ''min() arg is an empty sequence'')
    | x # r \<Rightarrow> Inr (fold min r x))"

definition py_max :: "real list \<Rightarrow> error + real" where
  "py_max xs = (case xs of
      [] \<Rightarrow> Inl (ValueError ''max() arg is an empty sequence'')
    | x # r \<Rightarrow> Inr (fold max r x))"

text \<open>\<^verbatim>\<open>str.lower\<close> on ASCII: the letters A to Z move to a to z.\<close>

definition lower_char :: "char \<Rightarrow> char" where
  "lower_char c =
     (let n = (of_char c :: nat) in if 65 \<le> n \<and> n \<le> 90 then char_of (n + 32) else c)"

definition lower :: "string \<Rightarrow> string" where
  "lower s = map lower_char s"

subsection \<open>\<^verbatim>\<open>RNADrawer.__init__\<close> and \<^verbatim>\<open>RNADrawer.__setup\<close>\<close>

definition RNADrawer_init :: "('c, 'd, 's) collaborators \<Rightarrow> 's RNADrawer" where
  "RNADrawer_init env =
     \<lparr>self_colorer = Colorer env, self_draw_params = DrawParameters_new env\<rparr>"

definition RNADrawer_setup :: "'s RNADrawer \<Rightarrow> DrawParameters option \<Rightarrow> 's RNADrawer" where
  "RNADrawer_setup self draw_params =
     (case draw_params of
        None \<Rightarrow> self
      | Some p \<Rightarrow> self\<lparr>self_draw_params := p\<rparr>)"

subsection \<open>\<^verbatim>\<open>RNADrawer.__render\<close>\<close>

text \<open>
  Lines 115 to 120: the loop over \<^verbatim>\<open>range(len(pairmap))\<close> that appends an edge for
  every index whose entry is greater than the index.
\<close>

definition pairs_of :: "'c \<Rightarrow> int list \<Rightarrow> 'c edge list" where
  "pairs_of col pairmap =
     fold (\<lambda>i pairs.
        if pairmap ! i > int i
        then pairs @ [\<lparr>e_from = int i, e_to = pairmap ! i, e_p = 1, e_color = col\<rparr>]
        else pairs)
      [0 ..< length pairmap] []"

text \<open>Lines 136 to 140: the calibration table, and line 146: the model function.\<close>

definition rna_area :: "int list" where
  "rna_area = [3781, 126207, 1150472, 4286761]"

definition rna_figsize_variable :: "int list" where
  "rna_figsize_variable = [25, 30, 35, 40]"

definition test :: "real \<Rightarrow> real \<Rightarrow> real \<Rightarrow> real \<Rightarrow> real" where
  "test x a b c = a * (x - b) powr c"

text \<open>
  Lines 151 to 158: the guard and the two arguments of \<^verbatim>\<open>set_size_inches\<close>;
  \<open>None\<close> when the guard is false and the figure keeps the size it was created with.
\<close>

definition figure_size ::
  "real \<times> real \<times> real \<Rightarrow> real list \<Rightarrow> real list \<Rightarrow> error + (real \<times> real) option" where
  "figure_size param xs ys =
     bind_err (py_min xs) (\<lambda>xmin.
     bind_err (py_max ys) (\<lambda>ymax.
       if xmin \<noteq> ymax then
         bind_err (py_max xs) (\<lambda>xmax.
         bind_err (py_min ys) (\<lambda>ymin.
           let area = (xmax - xmin) * (ymax - ymin);
               denom = test area (fst param) (fst (snd param)) (snd (snd param))
           in Inr (Some ((xmax - xmin) / denom, (ymax - ymin) / denom))))
       else Inr None))"

definition apply_size ::
  "('c, 'd, 's) collaborators \<Rightarrow> (real \<times> real) option \<Rightarrow> error option" where
  "apply_size env fs = (case fs of None \<Rightarrow> None | Some (wd, ht) \<Rightarrow> set_size_inches env wd ht)"

definition RNADrawer_render ::
  "('c, 'd, 's) collaborators \<Rightarrow> string \<Rightarrow> string \<Rightarrow> 'c list \<Rightarrow> string \<Rightarrow> DrawParameters
    \<Rightarrow> event list \<Rightarrow> (error + 'c RNARenderer) \<times> event list" where
  "RNADrawer_render env seq ss colors filename params w =
     bind_in (get_pairmap_from_secstruct env ss) w (\<lambda>pairmap.
     let pairs = pairs_of (DEFAULT_COLORS_e env) pairmap in
     bind_in (setup_tree env ss (NODE_R params) (PRIMARY_SPACE params) (PAIR_SPACE params)) w
       (\<lambda>(xs, ys, size).
     bind_in (py_max size) w (\<lambda>m.
     let cell_size = m + CELL_PADDING params * 2 in
     bind_in (py_min xs) w (\<lambda>xmin.
     bind_in (py_max xs) w (\<lambda>xmax.
     bind_in (py_min ys) w (\<lambda>ymin.
     bind_in (py_max ys) w (\<lambda>ymax.
     let r = \<lparr>xarray = xs, yarray = ys, tree_size = size,
              ax_axis = Some ''off'',
              ax_xlim = Some (xmin + 40 - 15, xmax + 40 + 15),
              ax_ylim = Some (ymin + 40 - 15, ymax + 40 + 15),
              fig_size_inches = None, drawn = None\<rparr>;
         w1 = w @ [CurveFit rna_area rna_figsize_variable] in
     bind_in (curve_fit env rna_area rna_figsize_variable) w1 (\<lambda>param.
     bind_in (figure_size param xs ys) w1 (\<lambda>fs.
     check_in (apply_size env fs) w1 (
     let r1 = r\<lparr>fig_size_inches := fs,
                drawn := Some \<lparr>dc_x = CELL_PADDING params, dc_y = CELL_PADDING params,
                               dc_colors = colors, dc_pairs = pairs, dc_seq = seq,
                               dc_letters = RENDER_IN_LETTERS params\<rparr>\<rparr> in
     check_in (renderer_draw env r1) w1 (
     check_in (savefig env (filename @ ''.png'') r1) w1
       (Inr r1, w1 @ [SaveFig (filename @ ''.png'')]))))))))))))"

subsection \<open>\<^verbatim>\<open>RNADrawer.draw\<close>\<close>

text \<open>Lines 98 to 103: the palette is set when one is given, then the colors are resolved.\<close>

definition set_palette ::
  "('c, 'd, 's) collaborators \<Rightarrow> 's \<Rightarrow> string option \<Rightarrow> error + 's" where
  "set_palette env col color_palette =
     (case color_palette of None \<Rightarrow> Inr col | Some cp \<Rightarrow> colorer_color_palette env col cp)"

definition resolve_colors ::
  "('c, 'd, 's) collaborators \<Rightarrow> 's \<Rightarrow> string \<Rightarrow> string \<Rightarrow> string option \<Rightarrow> RenderType option
    \<Rightarrow> 'c option \<Rightarrow> string option \<Rightarrow> 'd option \<Rightarrow> (error + 'c list) \<times> 's" where
  "resolve_colors env col seq ss color_str render_type default_color color_palette data =
     bind_in (set_palette env col color_palette) col (\<lambda>col1.
       colorer_get_rgb_colors env col1 seq ss color_str data render_type default_color)"

definition RNADrawer_draw ::
  "('c, 'd, 's) collaborators \<Rightarrow> 's RNADrawer \<Rightarrow> string \<Rightarrow> string option \<Rightarrow> string
    \<Rightarrow> string option \<Rightarrow> RenderType option \<Rightarrow> 'c option \<Rightarrow> string option \<Rightarrow> 'd option
    \<Rightarrow> DrawParameters option \<Rightarrow> event list
    \<Rightarrow> (error + 'c RNARenderer) \<times> 's RNADrawer \<times> event list" where
  "RNADrawer_draw env self ss seq filename color_str render_type default_color color_palette
      data draw_params w =
     (let self1 = RNADrawer_setup self draw_params;
          seq1 = (case seq of None \<Rightarrow> replicate (length ss) (CHR '' '') | Some s \<Rightarrow> s);
          (cols, col) = resolve_colors env (self_colorer self1) seq1 ss color_str render_type
                default_color color_palette data;
          self2 = self1\<lparr>self_colorer := col\<rparr>
      in case cols of
           Inl e \<Rightarrow> (Inl e, self2, w)
         | Inr final_color_rbgs \<Rightarrow>
             (let (res, w1) = RNADrawer_render env seq1 ss final_color_rbgs filename
                     (self_draw_params self2) w
              in (res, self2, w1)))"

subsection \<open>The module functions\<close>

definition get_data_from_args :: "('c, 'd, 's) collaborators \<Rightarrow> args \<Rightarrow> error + 'd option" where
  "get_data_from_args env a =
     (if args_data_str a \<noteq> None \<or> args_data_file a \<noteq> None
      then bind_err
             (Data env (args_data_str a) (args_data_file a) (args_data_palette a)
                (args_data_vmin a) (args_data_vmax a) (args_data_ignore_restype a))
             (\<lambda>d. Inr (Some d))
      else Inr None)"

definition get_render_type :: "string option \<Rightarrow> error + RenderType option" where
  "get_render_type render_type_name =
     (case render_type_name of
        None \<Rightarrow> Inr None
      | Some n \<Rightarrow>
          (let name = lower n in
           if name = ''res_type'' then Inr (Some RES_TYPE)
           else if name = ''paired'' then Inr (Some PAIRED)
           else if name = ''strand'' then Inr (Some STRAND)
           else if name = ''none'' then Inr None
           else Inl (ValueError (''unknown render type: '' @ name))))"

text \<open>Lines 204 to 206: the default color is parsed when one is given.\<close>

definition get_default_color :: "('c, 'd, 's) collaborators \<Rightarrow> args \<Rightarrow> error + 'c option" where
  "get_default_color env a =
     (case args_default_color a of
        None \<Rightarrow> Inr None
      | Some s \<Rightarrow> bind_err (parse_color_code env s) (\<lambda>c. Inr (Some c)))"

definition rna_draw_from_args ::
  "('c, 'd, 's) collaborators \<Rightarrow> args \<Rightarrow> event list \<Rightarrow> (error + 'c RNARenderer) \<times> event list" where
  "rna_draw_from_args env a w =
     bind_in (get_data_from_args env a) w (\<lambda>data.
     bind_in (get_render_type (args_render_type a)) w (\<lambda>render_type.
     bind_in (get_default_color env a) w (\<lambda>default_color.
     let rd = RNADrawer_init env;
         (res, rd1, w1) =
            RNADrawer_draw env rd (args_ss a) (args_seq a) (args_out a) (args_color_str a)
              render_type default_color (args_color_palette a) data None w
     in (res, w1))))"

text \<open>Lines 220 to 225: the loop of \<^verbatim>\<open>rna_draw\<close> that builds the argument list.\<close>

definition rna_draw_argv :: "(string \<times> pyval) list \<Rightarrow> pyval list" where
  "rna_draw_argv kwargs =
     fold (\<lambda>(k, v) argv.
        argv @ [Str (''-'' @ k), (case v of Path s \<Rightarrow> Str s | Str s \<Rightarrow> v | Obj n \<Rightarrow> v)])
      kwargs []"

definition rna_draw ::
  "('c, 'd, 's) collaborators \<Rightarrow> (string \<times> pyval) list \<Rightarrow> event list
    \<Rightarrow> (error + 'c RNARenderer) \<times> event list" where
  "rna_draw env kwargs w =
     bind_in (parse_args env (rna_draw_argv kwargs)) w (\<lambda>a. rna_draw_from_args env a w)"

text \<open>\<^verbatim>\<open>main\<close> parses \<^verbatim>\<open>sys.argv[1:]\<close>, a list of strings.\<close>

definition main ::
  "('c, 'd, 's) collaborators \<Rightarrow> string list \<Rightarrow> event list
    \<Rightarrow> (error + 'c RNARenderer) \<times> event list" where
  "main env argv w =
     bind_in (parse_args env (map Str argv)) w (\<lambda>a. rna_draw_from_args env a w)"

subsection \<open>Notions used in the statements\<close>

text \<open>The image files written and the fits performed, read off a trace.\<close>

fun saved_files :: "event list \<Rightarrow> string list" where
  "saved_files [] = []"
| "saved_files (SaveFig f # w) = f # saved_files w"
| "saved_files (CurveFit xs ys # w) = saved_files w"

fun fit_calls :: "event list \<Rightarrow> (int list \<times> int list) list" where
  "fit_calls [] = []"
| "fit_calls (CurveFit xs ys # w) = (xs, ys) # fit_calls w"
| "fit_calls (SaveFig f # w) = fit_calls w"

text \<open>
  A pairing relation as the data model describes it: every entry is the unpaired
  sentinel \<open>-1\<close> or the index of a partner, which is another index of the list and is
  paired back. \<open>paired pm i j\<close> says that \<open>i\<close> and \<open>j\<close> are partners.
\<close>

definition valid_pairmap :: "int list \<Rightarrow> bool" where
  "valid_pairmap pm =
     (\<forall>i < length pm. pm ! i = - 1 \<or>
        (0 \<le> pm ! i \<and> nat (pm ! i) < length pm \<and> pm ! i \<noteq> int i \<and> pm ! nat (pm ! i) = int i))"

definition paired :: "int list \<Rightarrow> nat \<Rightarrow> nat \<Rightarrow> bool" where
  "paired pm i j = (i < length pm \<and> j < length pm \<and> pm ! i = int j \<and> pm ! j = int i)"

text \<open>
  The command line that stands for a keyword mapping: every key prefixed with \<open>-\<close> and
  followed by its value, a \<^verbatim>\<open>Path\<close> as its string. A mapping with a value that is
  neither a string nor a path has no command line.
\<close>

fun value_text :: "pyval \<Rightarrow> string option" where
  "value_text (Str s) = Some s"
| "value_text (Path s) = Some s"
| "value_text (Obj n) = None"

fun cli_argument_list :: "(string \<times> pyval) list \<Rightarrow> string list option" where
  "cli_argument_list [] = Some []"
| "cli_argument_list ((k, v) # kwargs) =
     (case value_text v of
        None \<Rightarrow> None
      | Some s \<Rightarrow>
          (case cli_argument_list kwargs of
             None \<Rightarrow> None
           | Some rest \<Rightarrow> Some ((''-'' @ k) # s # rest)))"

subsection \<open>Collaborators for the examples\<close>

text \<open>
  The theorems below hold for all collaborators. To run the orchestrator on a concrete
  input, the examples use the following ones. No theorem about the program depends on
  them.
\<close>

text \<open>
  Modelled from the spec: \<^verbatim>\<open>render_rna.get_pairmap_from_secstruct\<close> is not in
  \<^verbatim>\<open>draw.py\<close>; this is the PairMapParser of the specification (section 4.1): one stack
  per bracket family, an open symbol pushes its index, a close symbol pops the partner,
  an unknown character, a close on an empty stack and an open left on a stack fail.
\<close>

definition bracket_open :: "char \<Rightarrow> nat option" where
  "bracket_open c =
     (if c = CHR ''('' then Some 0 else if c = CHR ''['' then Some 1
      else if c = CHR ''{'' then Some 2 else if c = CHR ''<'' then Some 3 else None)"

definition bracket_close :: "char \<Rightarrow> nat option" where
  "bracket_close c =
     (if c = CHR '')'' then Some 0 else if c = CHR '']'' then Some 1
      else if c = CHR ''}'' then Some 2 else if c = CHR ''>'' then Some 3 else None)"

fun parse_from :: "string \<Rightarrow> nat \<Rightarrow> (nat \<Rightarrow> nat list) \<Rightarrow> int list \<Rightarrow> error + int list" where
  "parse_from [] i stacks pm =
     (if list_all (\<lambda>ch. stacks ch = []) [0, 1, 2, 3] then Inr pm
      else Inl (Raised ''UnbalancedStructureError''))"
| "parse_from (c # cs) i stacks pm =
     (if c = CHR ''.'' then parse_from cs (Suc i) stacks pm
      else case bracket_open c of
        Some ch \<Rightarrow> parse_from cs (Suc i) (stacks(ch := i # stacks ch)) pm
      | None \<Rightarrow>
         (case bracket_close c of
            None \<Rightarrow> Inl (Raised ''StructureSyntaxError'')
          | Some ch \<Rightarrow>
             (case stacks ch of
                [] \<Rightarrow> Inl (Raised ''UnbalancedStructureError'')
              | j # st \<Rightarrow>
                  parse_from cs (Suc i) (stacks(ch := st)) (pm[j := int i, i := int j]))))"

definition parse :: "string \<Rightarrow> error + int list" where
  "parse dot_bracket =
     parse_from dot_bracket 0 (\<lambda>ch. []) (replicate (length dot_bracket) (- 1))"

text \<open>
  A layout that puts residue \<open>i\<close> at \<open>x = i * primary_space\<close>, a paired residue at
  \<open>y = pair_space\<close> and an unpaired one at \<open>y = 0\<close>. It stands in for
  \<^verbatim>\<open>RNARenderer.setup_tree\<close>, whose geometry the examples do not need.
\<close>

fun line_xs :: "real \<Rightarrow> nat \<Rightarrow> string \<Rightarrow> real list" where
  "line_xs d i [] = []"
| "line_xs d i (c # cs) = (real i * d) # line_xs d (Suc i) cs"

definition line_layout ::
  "string \<Rightarrow> real \<Rightarrow> real \<Rightarrow> real \<Rightarrow> error + real list \<times> real list \<times> real list" where
  "line_layout ss node_r primary_space pair_space =
     (if ss = [] then Inl (Raised ''LayoutError'')
      else Inr (line_xs primary_space 0 ss,
                map (\<lambda>c. if c = CHR ''.'' then 0 else pair_space) ss,
                [real (length ss) * primary_space + 2 * node_r, pair_space + 2 * node_r]))"

text \<open>
  Modelled from the spec: \<^verbatim>\<open>colorer.Colorer.get_rgb_colors\<close> is not in \<^verbatim>\<open>draw.py\<close>;
  of the ColorResolver of the specification (section 4.3) this keeps the failure for a
  data series whose length is not the residue count and the default color, one color
  per residue. It has no failure for a sequence of another length, as section 4.3 has
  none.
\<close>

definition plain_colors ::
  "string option \<Rightarrow> string \<Rightarrow> string \<Rightarrow> string option \<Rightarrow> real list option \<Rightarrow> RenderType option
    \<Rightarrow> string option \<Rightarrow> (error + string list) \<times> string option" where
  "plain_colors st seq ss color_str data render_type default_color =
     (if (case data of None \<Rightarrow> False | Some d \<Rightarrow> length d \<noteq> length ss)
      then (Inl (Raised ''DataLengthMismatchError''), st)
      else (Inr (replicate (length ss)
                  (case default_color of None \<Rightarrow> ''black'' | Some c \<Rightarrow> c)), st))"

text \<open>
  A reader of command lines in which options and values alternate; it stands in for the
  parser that \<^verbatim>\<open>get_parser\<close> builds: \<open>-ss\<close> is required, \<open>-out\<close> defaults to
  \<open>secstruct\<close>, an unknown option exits.
\<close>

fun option_pairs :: "pyval list \<Rightarrow> (string \<times> string) list option" where
  "option_pairs [] = Some []"
| "option_pairs (Str k # Str v # rest) =
     (case option_pairs rest of None \<Rightarrow> None | Some ps \<Rightarrow> Some ((k, v) # ps))"
| "option_pairs other = None"

definition option_names :: "string list" where
  "option_names = [''-ss'', ''-seq'', ''-out'', ''-color_str'', ''-render_type'',
     ''-color_palette'', ''-default_color'', ''-data_str'', ''-data_file'', ''-data_palette'',
     ''-data_vmin'', ''-data_vmax'', ''-data_ignore_restype'']"

definition simple_parse_args :: "pyval list \<Rightarrow> error + args" where
  "simple_parse_args argv =
     (case option_pairs argv of
        None \<Rightarrow> Inl (Raised ''SystemExit'')
      | Some ps \<Rightarrow>
          (if list_all (\<lambda>kv. fst kv \<in> set option_names) ps then
             (case map_of ps ''-ss'' of
                None \<Rightarrow> Inl (Raised ''SystemExit'')
              | Some s \<Rightarrow>
                  Inr \<lparr>args_ss = s, args_seq = map_of ps ''-seq'',
                       args_out = (case map_of ps ''-out'' of None \<Rightarrow> ''secstruct'' | Some f \<Rightarrow> f),
                       args_color_str = map_of ps ''-color_str'',
                       args_render_type = map_of ps ''-render_type'',
                       args_color_palette = map_of ps ''-color_palette'',
                       args_default_color = map_of ps ''-default_color'',
                       args_data_str = map_of ps ''-data_str'',
                       args_data_file = map_of ps ''-data_file'',
                       args_data_palette = map_of ps ''-data_palette'',
                       args_data_vmin = map_of ps ''-data_vmin'',
                       args_data_vmax = map_of ps ''-data_vmax'',
                       args_data_ignore_restype = map_of ps ''-data_ignore_restype''\<rparr>)
           else Inl (Raised ''SystemExit'')))"

definition example_params :: DrawParameters where
  "example_params =
     \<lparr>NODE_R = 10, PRIMARY_SPACE = 20, PAIR_SPACE = 23, CELL_PADDING = 40,
      RENDER_IN_LETTERS = False\<rparr>"

definition custom_params :: DrawParameters where
  "custom_params =
     \<lparr>NODE_R = 10, PRIMARY_SPACE = 20, PAIR_SPACE = 23, CELL_PADDING = 5,
      RENDER_IN_LETTERS = True\<rparr>"

definition example_env :: "(string, real list, string option) collaborators" where
  "example_env =
     \<lparr>Colorer = None,
      colorer_color_palette = (\<lambda>st cp. Inr (Some cp)),
      colorer_get_rgb_colors = plain_colors,
      parse_color_code = Inr,
      Data = (\<lambda>data_str data_file data_palette data_vmin data_vmax data_ignore_restype. Inr []),
      DEFAULT_COLORS_e = ''black'',
      DrawParameters_new = example_params,
      get_pairmap_from_secstruct = parse,
      setup_tree = line_layout,
      curve_fit = (\<lambda>xs ys. Inr (1, 0, 1)),
      set_size_inches = (\<lambda>wd ht. None),
      renderer_draw = (\<lambda>r. None),
      savefig = (\<lambda>f r. None),
      parse_args = simple_parse_args\<rparr>"

text \<open>The figure that these collaborators give for the hairpin \<open>((..))\<close>.\<close>

definition example_figure :: "DrawParameters \<Rightarrow> string \<Rightarrow> string RNARenderer" where
  "example_figure params seq =
     \<lparr>xarray = [0, 20, 40, 60, 80, 100], yarray = [23, 23, 0, 0, 23, 23],
      tree_size = [140, 43], ax_axis = Some ''off'', ax_xlim = Some (25, 155),
      ax_ylim = Some (25, 78), fig_size_inches = Some (1 / 23, 1 / 100),
      drawn = Some \<lparr>dc_x = CELL_PADDING params, dc_y = CELL_PADDING params,
                     dc_colors = [''black'', ''black'', ''black'', ''black'', ''black'', ''black''],
                     dc_pairs = [\<lparr>e_from = 0, e_to = 5, e_p = 1, e_color = ''black''\<rparr>,
                                 \<lparr>e_from = 1, e_to = 4, e_p = 1, e_color = ''black''\<rparr>],
                     dc_seq = seq, dc_letters = RENDER_IN_LETTERS params\<rparr>\<rparr>"

text \<open>
  Three calls of \<^verbatim>\<open>draw\<close> on the hairpin with \<^verbatim>\<open>draw_params=None\<close>: on a new object,
  on the object left by a call that gave \<open>custom_params\<close>, and done twice.
\<close>

definition draw_hairpin ::
  "string option RNADrawer \<Rightarrow> DrawParameters option \<Rightarrow> event list
    \<Rightarrow> (error + string RNARenderer) \<times> string option RNADrawer \<times> event list" where
  "draw_hairpin self draw_params w =
     RNADrawer_draw example_env self ''((..))'' None ''out'' None None None None None
       draw_params w"

definition new_drawer :: "string option RNADrawer" where
  "new_drawer = RNADrawer_init example_env"

definition after_custom :: "string option RNADrawer" where
  "after_custom = fst (snd (draw_hairpin new_drawer (Some custom_params) []))"

definition drawn_twice :: "event list" where
  "drawn_twice =
     snd (snd (draw_hairpin (fst (snd (draw_hairpin new_drawer None [])))
       None (snd (snd (draw_hairpin new_drawer None [])))))"

text \<open>A namespace for the hairpin with the scheme keyword \<open>k\<close>, and a keyword mapping.\<close>

definition example_args :: "string \<Rightarrow> args" where
  "example_args k =
     \<lparr>args_ss = ''((..))'', args_seq = None, args_out = ''out'', args_color_str = None,
      args_render_type = Some k, args_color_palette = None, args_default_color = None,
      args_data_str = None, args_data_file = None, args_data_palette = None,
      args_data_vmin = None, args_data_vmax = None, args_data_ignore_restype = None\<rparr>"

definition example_kwargs :: "(string \<times> pyval) list" where
  "example_kwargs = [(''ss'', Str ''((..))''), (''out'', Path ''figs/hairpin'')]"

section \<open>Properties\<close>

subsection \<open>How an exception ends a function\<close>

lemma bind_in_Inr:
  "bind_in m w k = (Inr r, w') \<Longrightarrow> \<exists>x. m = Inr x \<and> k x = (Inr r, w')"
  by (cases m) (simp_all add: bind_in_def)

lemma check_in_Inr:
  "check_in m w k = (Inr r, w') \<Longrightarrow> m = None \<and> k = (Inr r, w')"
  by (cases m) (simp_all add: check_in_def)

lemma bind_in_Inl:
  "bind_in m w k = (Inl e, w') \<Longrightarrow>
     (m = Inl e \<and> w' = w) \<or> (\<exists>x. m = Inr x \<and> k x = (Inl e, w'))"
  by (cases m) (simp_all add: bind_in_def)

lemma check_in_Inl:
  "check_in m w k = (Inl e, w') \<Longrightarrow>
     (m = Some e \<and> w' = w) \<or> (m = None \<and> k = (Inl e, w'))"
  by (cases m) (simp_all add: check_in_def)

lemma saved_files_append [simp]: "saved_files (w @ v) = saved_files w @ saved_files v"
  by (induction w rule: saved_files.induct) simp_all

lemma fit_calls_append [simp]: "fit_calls (w @ v) = fit_calls w @ fit_calls v"
  by (induction w rule: fit_calls.induct) simp_all

subsection \<open>What a call of \<^verbatim>\<open>__render\<close> that returns has done\<close>

lemma render_Inr:
  assumes "RNADrawer_render env seq ss colors filename params w = (Inr fig, w')"
  shows "\<exists>pairmap xs ys size param fs.
           get_pairmap_from_secstruct env ss = Inr pairmap
         \<and> setup_tree env ss (NODE_R params) (PRIMARY_SPACE params) (PAIR_SPACE params)
             = Inr (xs, ys, size)
         \<and> curve_fit env rna_area rna_figsize_variable = Inr param
         \<and> figure_size param xs ys = Inr fs
         \<and> xarray fig = xs \<and> yarray fig = ys
         \<and> fig_size_inches fig = fs
         \<and> drawn fig = Some \<lparr>dc_x = CELL_PADDING params, dc_y = CELL_PADDING params,
               dc_colors = colors, dc_pairs = pairs_of (DEFAULT_COLORS_e env) pairmap,
               dc_seq = seq, dc_letters = RENDER_IN_LETTERS params\<rparr>
         \<and> w' = w @ [CurveFit rna_area rna_figsize_variable, SaveFig (filename @ ''.png'')]"
  using assms unfolding RNADrawer_render_def Let_def
  by (auto dest!: bind_in_Inr check_in_Inr split: prod.splits)

lemma render_Inl:
  assumes "RNADrawer_render env seq ss colors filename params w = (Inl e, w')"
  shows "w' = w \<or> w' = w @ [CurveFit rna_area rna_figsize_variable]"
  using assms unfolding RNADrawer_render_def Let_def
  by (auto dest!: bind_in_Inl check_in_Inl split: prod.splits)

subsection \<open>The examples, evaluated\<close>

lemma example_parse: "parse ''((..))'' = Inr [5, 4, - 1, - 1, 1, 0]"
  by (simp add: parse_def bracket_open_def bracket_close_def)

lemma example_pairs:
  "pairs_of c [5, 4, - 1, - 1, 1, 0] =
     [\<lparr>e_from = 0, e_to = 5, e_p = 1, e_color = c\<rparr>, \<lparr>e_from = 1, e_to = 4, e_p = 1, e_color = c\<rparr>]"
  by (simp add: pairs_of_def upt_rec)

lemma example_layout:
  "line_layout ''((..))'' 10 20 23 =
     Inr ([0, 20, 40, 60, 80, 100], [23, 23, 0, 0, 23, 23], [140, 43])"
  by (simp add: line_layout_def)

lemma example_size:
  "figure_size (1, 0, 1) [0, 20, 40, 60, 80, 100] [23, 23, 0, 0, 23, 23] =
     Inr (Some (1 / 23, 1 / 100))"
  by (simp add: figure_size_def bind_err_def py_min_def py_max_def test_def)

lemma example_render:
  "NODE_R params = 10 \<Longrightarrow> PRIMARY_SPACE params = 20 \<Longrightarrow> PAIR_SPACE params = 23 \<Longrightarrow>
   RNADrawer_render example_env seq ''((..))''
       [''black'', ''black'', ''black'', ''black'', ''black'', ''black''] filename params w =
     (Inr (example_figure params seq),
      w @ [CurveFit rna_area rna_figsize_variable, SaveFig (filename @ ''.png'')])"
  by (simp add: RNADrawer_render_def example_env_def example_parse example_pairs
      example_layout example_size bind_in_def check_in_def apply_size_def py_min_def py_max_def
      example_figure_def)

lemma example_colors:
  "resolve_colors example_env st seq ''((..))'' color_str render_type None None None
     = (Inr [''black'', ''black'', ''black'', ''black'', ''black'', ''black''], st)"
  by (simp add: resolve_colors_def set_palette_def bind_in_def example_env_def plain_colors_def)

subsection \<open>What a call of \<^verbatim>\<open>draw\<close> that returns has done\<close>

lemma draw_Inr:
  assumes "RNADrawer_draw env self ss seq filename color_str render_type default_color
      color_palette data draw_params w = (Inr fig, self', w')"
  shows "\<exists>cols col.
      resolve_colors env (self_colorer (RNADrawer_setup self draw_params))
        (case seq of None \<Rightarrow> replicate (length ss) (CHR '' '') | Some s \<Rightarrow> s)
        ss color_str render_type default_color color_palette data = (Inr cols, col)
    \<and> RNADrawer_render env
        (case seq of None \<Rightarrow> replicate (length ss) (CHR '' '') | Some s \<Rightarrow> s)
        ss cols filename (self_draw_params (RNADrawer_setup self draw_params)) w = (Inr fig, w')
    \<and> self' = (RNADrawer_setup self draw_params)\<lparr>self_colorer := col\<rparr>"
  using assms unfolding RNADrawer_draw_def Let_def
  by (auto split: prod.splits sum.splits)

lemma example_draw:
  assumes "NODE_R (self_draw_params (RNADrawer_setup self draw_params)) = 10"
    "PRIMARY_SPACE (self_draw_params (RNADrawer_setup self draw_params)) = 20"
    "PAIR_SPACE (self_draw_params (RNADrawer_setup self draw_params)) = 23"
  shows "RNADrawer_draw example_env self ''((..))'' seq filename color_str render_type None
     None None draw_params w =
    (Inr (example_figure (self_draw_params (RNADrawer_setup self draw_params))
       (case seq of None \<Rightarrow> ''      '' | Some s \<Rightarrow> s)),
     RNADrawer_setup self draw_params,
     w @ [CurveFit rna_area rna_figsize_variable, SaveFig (filename @ ''.png'')])"
  using assms
  by (cases seq) (simp_all add: RNADrawer_draw_def example_colors example_render Let_def)

lemma new_drawer_params: "self_draw_params new_drawer = example_params"
  and new_drawer_colorer: "self_colorer new_drawer = None"
  by (simp_all add: new_drawer_def RNADrawer_init_def example_env_def)

lemma draw_hairpin_new:
  "draw_hairpin new_drawer None w =
     (Inr (example_figure example_params ''      ''), new_drawer,
      w @ [CurveFit rna_area rna_figsize_variable, SaveFig ''out.png''])"
  unfolding draw_hairpin_def
  by (subst example_draw)
     (simp_all add: RNADrawer_setup_def new_drawer_params example_params_def)

subsection \<open>The size of the figure\<close>

text \<open>
  When the guard of line 151 holds, the two arguments of \<^verbatim>\<open>set_size_inches\<close> are
  the extents of the bounding box divided by \<open>a * (area - b) powr c\<close>, with the area the
  product of the extents.
\<close>

lemma figure_size_formula:
  assumes "py_min xs = Inr xmin" "py_max xs = Inr xmax" "py_min ys = Inr ymin"
    "py_max ys = Inr ymax" "xmin \<noteq> ymax"
  shows "figure_size (a, b, c) xs ys =
     Inr (Some ((xmax - xmin) / (a * ((xmax - xmin) * (ymax - ymin) - b) powr c),
                (ymax - ymin) / (a * ((xmax - xmin) * (ymax - ymin) - b) powr c)))"
  using assms by (simp add: figure_size_def bind_err_def test_def Let_def)

subsection \<open>The sequence when none is given\<close>

text \<open>
  Claim C9: a call of \<^verbatim>\<open>draw\<close> with \<^verbatim>\<open>seq=None\<close> is the call with a sequence of
  spaces as long as the dot-bracket string: the two calls return the same result, leave
  the same object and the same trace. When the call returns a figure, the sequence given
  to \<^verbatim>\<open>r.draw\<close> is that string of spaces, of the length of the structure.
\<close>

theorem draw_without_seq:
  "RNADrawer_draw env self ss None filename color_str render_type default_color
       color_palette data draw_params w
   = RNADrawer_draw env self ss (Some (replicate (length ss) (CHR '' ''))) filename color_str
       render_type default_color color_palette data draw_params w
   \<and> (RNADrawer_draw env self ss None filename color_str render_type default_color
       color_palette data draw_params w = (Inr fig, self', w')
      \<longrightarrow> (\<exists>call. drawn fig = Some call \<and> dc_seq call = replicate (length ss) (CHR '' '')
            \<and> length (dc_seq call) = length ss))"
proof
  show "RNADrawer_draw env self ss None filename color_str render_type default_color
       color_palette data draw_params w
   = RNADrawer_draw env self ss (Some (replicate (length ss) (CHR '' ''))) filename color_str
       render_type default_color color_palette data draw_params w"
    by (simp add: RNADrawer_draw_def)
next
  show "RNADrawer_draw env self ss None filename color_str render_type default_color
       color_palette data draw_params w = (Inr fig, self', w')
      \<longrightarrow> (\<exists>call. drawn fig = Some call \<and> dc_seq call = replicate (length ss) (CHR '' '')
            \<and> length (dc_seq call) = length ss)"
  proof
    assume "RNADrawer_draw env self ss None filename color_str render_type default_color
       color_palette data draw_params w = (Inr fig, self', w')"
    from draw_Inr [OF this] obtain cols where
      "RNADrawer_render env (replicate (length ss) (CHR '' '')) ss cols filename
         (self_draw_params (RNADrawer_setup self draw_params)) w = (Inr fig, w')"
      by auto
    from render_Inr [OF this] show "\<exists>call. drawn fig = Some call
        \<and> dc_seq call = replicate (length ss) (CHR '' '') \<and> length (dc_seq call) = length ss"
      by auto
  qed
qed

theorem draw_without_seq_witness:
  "draw_hairpin new_drawer None [] =
     (Inr (example_figure example_params ''      ''), new_drawer,
      [CurveFit rna_area rna_figsize_variable, SaveFig ''out.png''])
   \<and> (\<exists>call. drawn (example_figure example_params ''      '') = Some call
        \<and> dc_seq call = replicate (length ''((..))'') (CHR '' '')
        \<and> length (dc_seq call) = length ''((..))'')"
  using draw_without_seq [of example_env new_drawer "''((..))''" "''out''" None None None None
      None None "[]" "example_figure example_params ''      ''" new_drawer
      "[CurveFit rna_area rna_figsize_variable, SaveFig ''out.png'']"]
    draw_hairpin_new [of "[]"]
  by (simp add: draw_hairpin_def)

subsection \<open>The scheme keyword\<close>

lemma lower_char_idem: "lower_char (lower_char c) = lower_char c"
  by (auto simp: lower_char_def Let_def)

lemma lower_idem: "lower (lower s) = lower s"
  by (simp add: lower_def lower_char_idem)

lemma lower_examples:
  "lower ''PAIRED'' = ''paired''" "lower ''Res_Type'' = ''res_type''"
  "lower ''strand'' = ''strand''" "lower ''None'' = ''none''" "lower ''Motif'' = ''motif''"
  by code_simp+

lemma bad_scheme_fails:
  assumes "get_render_type (args_render_type a) = Inl e"
  shows "\<exists>e'. rna_draw_from_args env a w = (Inl e', w)"
  using assms
  by (cases "get_data_from_args env a") (simp_all add: rna_draw_from_args_def bind_in_def)

lemma bad_scheme_error:
  assumes "get_render_type (args_render_type a) = Inl e" "get_data_from_args env a = Inr d"
  shows "rna_draw_from_args env a w = (Inl e, w)"
  using assms by (simp add: rna_draw_from_args_def bind_in_def)

text \<open>
  Claim C5: a scheme keyword is read without regard to case. \<open>res_type\<close>, \<open>paired\<close>
  and \<open>strand\<close> give their coloring strategy and \<open>none\<close> gives no scheme. Any other
  keyword raises the \<^verbatim>\<open>ValueError\<close> "unknown render type" (the UnknownSchemeError of
  the specification), and it does so before anything is drawn: a run of
  \<^verbatim>\<open>__rna_draw_from_args\<close> on such a keyword ends in an exception with the trace
  unchanged, and in this very exception when the data were read without one. The result
  depends on the keyword only through its lower-case form.
\<close>

theorem render_type_keywords:
  "(lower k = ''res_type'' \<longrightarrow> get_render_type (Some k) = Inr (Some RES_TYPE))
 \<and> (lower k = ''paired'' \<longrightarrow> get_render_type (Some k) = Inr (Some PAIRED))
 \<and> (lower k = ''strand'' \<longrightarrow> get_render_type (Some k) = Inr (Some STRAND))
 \<and> (lower k = ''none'' \<longrightarrow> get_render_type (Some k) = Inr None)
 \<and> (lower k \<notin> {''res_type'', ''paired'', ''strand'', ''none''} \<longrightarrow>
      get_render_type (Some k) = Inl (ValueError (''unknown render type: '' @ lower k))
    \<and> (args_render_type a = Some k \<longrightarrow>
          (\<exists>e. rna_draw_from_args env a w = (Inl e, w))
        \<and> (get_data_from_args env a = Inr d \<longrightarrow>
             rna_draw_from_args env a w
               = (Inl (ValueError (''unknown render type: '' @ lower k)), w))))
 \<and> get_render_type (Some (lower k)) = get_render_type (Some k)"
proof -
  have unknown: "lower k \<notin> {''res_type'', ''paired'', ''strand'', ''none''} \<Longrightarrow>
      get_render_type (Some k) = Inl (ValueError (''unknown render type: '' @ lower k))"
    by (simp add: get_render_type_def Let_def)
  have "lower k \<notin> {''res_type'', ''paired'', ''strand'', ''none''} \<Longrightarrow>
      args_render_type a = Some k \<Longrightarrow>
          (\<exists>e. rna_draw_from_args env a w = (Inl e, w))
        \<and> (get_data_from_args env a = Inr d \<longrightarrow>
             rna_draw_from_args env a w
               = (Inl (ValueError (''unknown render type: '' @ lower k)), w))"
    using bad_scheme_fails [of a _ env w] bad_scheme_error [of a _ env d w] unknown by simp
  moreover have "get_render_type (Some (lower k)) = get_render_type (Some k)"
    by (simp add: get_render_type_def lower_idem)
  ultimately show ?thesis
    using unknown by (simp add: get_render_type_def Let_def)
qed

theorem render_type_keywords_witness:
  "get_render_type (Some ''Res_Type'') = Inr (Some RES_TYPE)
 \<and> get_render_type (Some ''PAIRED'') = Inr (Some PAIRED)
 \<and> get_render_type (Some ''strand'') = Inr (Some STRAND)
 \<and> get_render_type (Some ''None'') = Inr None
 \<and> get_render_type (Some ''Motif'') = Inl (ValueError ''unknown render type: motif'')
 \<and> rna_draw_from_args example_env (example_args ''Motif'') []
      = (Inl (ValueError ''unknown render type: motif''), [])"
  using render_type_keywords [of "''Res_Type''"] render_type_keywords [of "''PAIRED''"]
    render_type_keywords [of "''strand''"] render_type_keywords [of "''None''"]
    render_type_keywords [of "''Motif''" "example_args ''Motif''" example_env "[]" None]
  by (simp add: lower_examples example_args_def get_data_from_args_def)

subsection \<open>The keyword interface and the command line\<close>

lemma fold_append_concat:
  "fold (\<lambda>x acc. acc @ f x) xs acc = acc @ concat (map f xs)"
  by (induction xs arbitrary: acc) simp_all

lemma rna_draw_argv_concat:
  "rna_draw_argv kwargs =
     concat (map (\<lambda>(k, v).
        [Str (''-'' @ k), (case v of Path s \<Rightarrow> Str s | Str s \<Rightarrow> v | Obj n \<Rightarrow> v)]) kwargs)"
proof -
  have "(\<lambda>(k, v) argv.
        argv @ [Str (''-'' @ k), (case v of Path s \<Rightarrow> Str s | Str s \<Rightarrow> v | Obj n \<Rightarrow> v)])
     = (\<lambda>x acc. acc @ (\<lambda>(k, v).
        [Str (''-'' @ k), (case v of Path s \<Rightarrow> Str s | Str s \<Rightarrow> v | Obj n \<Rightarrow> v)]) x)"
    by (auto simp: fun_eq_iff)
  then show ?thesis
    unfolding rna_draw_argv_def by (simp only: fold_append_concat append_Nil)
qed

lemma rna_draw_argv_cli:
  "cli_argument_list kwargs = Some argv \<Longrightarrow> rna_draw_argv kwargs = map Str argv"
  unfolding rna_draw_argv_concat
proof (induction kwargs arbitrary: argv)
  case Nil
  then show ?case by simp
next
  case (Cons kv kwargs)
  obtain k v where kv: "kv = (k, v)" by (cases kv)
  from Cons.prems kv obtain s rest where
    s: "value_text v = Some s" and rest: "cli_argument_list kwargs = Some rest"
    and argv: "argv = (''-'' @ k) # s # rest"
    by (auto split: option.splits)
  from s have "(case v of Path s \<Rightarrow> Str s | Str s \<Rightarrow> v | Obj n \<Rightarrow> v) = Str s"
    by (cases v) auto
  with Cons.IH [OF rest] kv argv show ?case
    by simp
qed

lemma example_main:
  "main example_env [''-ss'', ''((..))'', ''-out'', ''figs/hairpin''] [] =
     (Inr (example_figure example_params ''      ''),
      [CurveFit rna_area rna_figsize_variable, SaveFig ''figs/hairpin.png''])"
proof -
  have parsed: "parse_args example_env
      (map Str [''-ss'', ''((..))'', ''-out'', ''figs/hairpin''])
    = Inr ((example_args ''x'')\<lparr>args_out := ''figs/hairpin'', args_render_type := None\<rparr>)"
    by (simp add: example_env_def simple_parse_args_def option_names_def example_args_def)
  have drawn: "RNADrawer_draw example_env (RNADrawer_init example_env) ''((..))'' None
      ''figs/hairpin'' None None None None None None [] =
     (Inr (example_figure example_params ''      ''), new_drawer,
      [CurveFit rna_area rna_figsize_variable, SaveFig ''figs/hairpin.png''])"
    by (subst example_draw)
      (simp_all add: RNADrawer_setup_def new_drawer_params [unfolded new_drawer_def]
        example_params_def new_drawer_def)
  show ?thesis
    unfolding main_def parsed
    by (simp add: bind_in_def rna_draw_from_args_def get_data_from_args_def
        get_render_type_def get_default_color_def example_args_def drawn)
qed

text \<open>
  Claim C10: \<^verbatim>\<open>rna_draw(**kwargs)\<close> is the command-line entry point run on the
  argument list that prefixes every key with \<open>-\<close> and follows it with its value, a path
  as its string. For every keyword mapping that has such a command line (all its values
  are strings or paths) the two calls give the same result and the same trace: both
  parse with the same parser and run \<^verbatim>\<open>__rna_draw_from_args\<close> on the namespace.
\<close>

theorem rna_draw_is_main:
  "cli_argument_list kwargs = Some argv \<Longrightarrow> rna_draw env kwargs w = main env argv w"
  by (simp add: rna_draw_def main_def rna_draw_argv_cli)

theorem rna_draw_is_main_witness:
  "cli_argument_list example_kwargs = Some [''-ss'', ''((..))'', ''-out'', ''figs/hairpin'']
 \<and> rna_draw example_env example_kwargs []
     = main example_env [''-ss'', ''((..))'', ''-out'', ''figs/hairpin''] []
 \<and> rna_draw example_env example_kwargs []
     = (Inr (example_figure example_params ''      ''),
        [CurveFit rna_area rna_figsize_variable, SaveFig ''figs/hairpin.png''])"
proof -
  have cli: "cli_argument_list example_kwargs
      = Some [''-ss'', ''((..))'', ''-out'', ''figs/hairpin'']"
    by (simp add: example_kwargs_def)
  from rna_draw_is_main [OF cli, of example_env "[]"] cli example_main
  show ?thesis by simp
qed

subsection \<open>The edge list\<close>

lemma fold_filter_map:
  "fold (\<lambda>i acc. if P i then acc @ [g i] else acc) xs acc = acc @ map g (filter P xs)"
  by (induction xs arbitrary: acc) simp_all

lemma pairs_of_filter:
  "pairs_of c pm =
     map (\<lambda>i. \<lparr>e_from = int i, e_to = pm ! i, e_p = 1, e_color = c\<rparr>)
       (filter (\<lambda>i. pm ! i > int i) [0 ..< length pm])"
  unfolding pairs_of_def by (simp only: fold_filter_map append_Nil)

lemma filter_eq_upt: "i < n \<Longrightarrow> filter (\<lambda>x. x = i) [0 ..< n] = [i]"
proof (induction n)
  case 0
  then show ?case by simp
next
  case (Suc n)
  show ?case
  proof (cases "i = n")
    case True
    have "filter (\<lambda>x. x = n) [0 ..< n] = []"
      by (simp add: filter_empty_conv)
    with True show ?thesis by simp
  next
    case False
    with Suc have "filter (\<lambda>x. x = i) [0 ..< n] = [i]" by simp
    with False show ?thesis by simp
  qed
qed

lemma pair_entry_unique:
  assumes "i < j" "paired pm i j"
  shows "filter (\<lambda>e. {e_from e, e_to e} = {int i, int j}) (pairs_of c pm)
       = [\<lparr>e_from = int i, e_to = int j, e_p = 1, e_color = c\<rparr>]"
proof -
  from assms have i: "i < length pm" and pmi: "pm ! i = int j"
    by (simp_all add: paired_def)
  have "filter (\<lambda>k. pm ! k > int k \<and> {int k, pm ! k} = {int i, int j}) [0 ..< length pm]
      = filter (\<lambda>k. k = i) [0 ..< length pm]"
  proof (rule filter_cong [OF refl])
    fix k assume "k \<in> set [0 ..< length pm]"
    show "(pm ! k > int k \<and> {int k, pm ! k} = {int i, int j}) = (k = i)"
      using assms(1) pmi by (auto simp: doubleton_eq_iff)
  qed
  also have "\<dots> = [i]" using i by (rule filter_eq_upt)
  finally show ?thesis
    using pmi by (simp add: pairs_of_filter filter_map comp_def)
qed

lemma pair_entry_sound:
  assumes "valid_pairmap pm" "e \<in> set (pairs_of c pm)"
  shows "\<exists>i j. i < j \<and> paired pm i j \<and> e = \<lparr>e_from = int i, e_to = int j, e_p = 1, e_color = c\<rparr>"
proof -
  from assms(2) obtain i where i: "i < length pm" and gt: "pm ! i > int i"
    and e: "e = \<lparr>e_from = int i, e_to = pm ! i, e_p = 1, e_color = c\<rparr>"
    by (auto simp: pairs_of_filter)
  from assms(1) i gt have "nat (pm ! i) < length pm" "pm ! nat (pm ! i) = int i"
    by (auto simp: valid_pairmap_def)
  with i gt e have "i < nat (pm ! i) \<and> paired pm i (nat (pm ! i))
      \<and> e = \<lparr>e_from = int i, e_to = int (nat (pm ! i)), e_p = 1, e_color = c\<rparr>"
    by (simp add: paired_def)
  then show ?thesis by blast
qed

lemma unpaired_no_edge:
  assumes "valid_pairmap pm" "k < length pm" "pm ! k = - 1" "e \<in> set (pairs_of c pm)"
  shows "e_from e \<noteq> int k \<and> e_to e \<noteq> int k"
proof -
  from pair_entry_sound [OF assms(1,4)] obtain i j where
    "i < j" "paired pm i j" "e = \<lparr>e_from = int i, e_to = int j, e_p = 1, e_color = c\<rparr>"
    by blast
  with assms(3) show ?thesis by (auto simp: paired_def)
qed

text \<open>
  Claim C6: for a pairing relation (every entry the unpaired sentinel or a partner that is
  paired back), the edge list built by lines 115 to 120 has exactly one entry for every
  base pair: for partners \<open>i < j\<close> the entries on the pair are the single entry from
  \<open>i\<close> to \<open>j\<close> with weight 1 and the default edge color. Every entry is the entry of a
  base pair, so no pair appears twice, and an unpaired residue is neither end of an
  entry. By \<open>render_Inr\<close> this list is the one given to \<^verbatim>\<open>r.draw\<close>.
\<close>

theorem one_edge_per_pair:
  assumes "valid_pairmap pm"
  shows "(\<forall>i j. i < j \<and> paired pm i j \<longrightarrow>
            filter (\<lambda>e. {e_from e, e_to e} = {int i, int j}) (pairs_of c pm)
              = [\<lparr>e_from = int i, e_to = int j, e_p = 1, e_color = c\<rparr>])
       \<and> (\<forall>e \<in> set (pairs_of c pm). \<exists>i j. i < j \<and> paired pm i j
              \<and> e = \<lparr>e_from = int i, e_to = int j, e_p = 1, e_color = c\<rparr>)
       \<and> (\<forall>k < length pm. pm ! k = - 1 \<longrightarrow>
              (\<forall>e \<in> set (pairs_of c pm). e_from e \<noteq> int k \<and> e_to e \<noteq> int k))"
proof (intro conjI allI impI ballI)
  fix i j assume "i < j \<and> paired pm i j"
  then show "filter (\<lambda>e. {e_from e, e_to e} = {int i, int j}) (pairs_of c pm)
              = [\<lparr>e_from = int i, e_to = int j, e_p = 1, e_color = c\<rparr>]"
    by (simp add: pair_entry_unique)
next
  fix e assume "e \<in> set (pairs_of c pm)"
  with assms show "\<exists>i j. i < j \<and> paired pm i j
              \<and> e = \<lparr>e_from = int i, e_to = int j, e_p = 1, e_color = c\<rparr>"
    by (rule pair_entry_sound)
next
  fix k e assume "k < length pm" "pm ! k = - 1" "e \<in> set (pairs_of c pm)"
  with assms show "e_from e \<noteq> int k" "e_to e \<noteq> int k"
    using unpaired_no_edge [of pm k e c] by simp_all
qed

lemma example_valid: "valid_pairmap [5, 4, - 1, - 1, 1, 0]"
  unfolding valid_pairmap_def
proof (intro allI impI)
  fix i :: nat
  assume "i < length [5, 4, - 1, - 1, 1, 0 :: int]"
  then have "i = 0 \<or> i = 1 \<or> i = 2 \<or> i = 3 \<or> i = 4 \<or> i = 5" by auto
  then show "[5, 4, - 1, - 1, 1, 0 :: int] ! i = - 1 \<or>
       0 \<le> [5, 4, - 1, - 1, 1, 0 :: int] ! i \<and>
       nat ([5, 4, - 1, - 1, 1, 0 :: int] ! i) < length [5, 4, - 1, - 1, 1, 0 :: int] \<and>
       [5, 4, - 1, - 1, 1, 0 :: int] ! i \<noteq> int i \<and>
       [5, 4, - 1, - 1, 1, 0 :: int] ! nat ([5, 4, - 1, - 1, 1, 0 :: int] ! i) = int i"
    by (elim disjE) simp_all
qed

theorem one_edge_per_pair_witness:
  "valid_pairmap [5, 4, - 1, - 1, 1, 0]
 \<and> paired [5, 4, - 1, - 1, 1, 0] 1 4
 \<and> pairs_of ''black'' [5, 4, - 1, - 1, 1, 0]
     = [\<lparr>e_from = 0, e_to = 5, e_p = 1, e_color = ''black''\<rparr>,
        \<lparr>e_from = 1, e_to = 4, e_p = 1, e_color = ''black''\<rparr>]
 \<and> filter (\<lambda>e. {e_from e, e_to e} = {1, 4}) (pairs_of ''black'' [5, 4, - 1, - 1, 1, 0])
     = [\<lparr>e_from = 1, e_to = 4, e_p = 1, e_color = ''black''\<rparr>]"
proof -
  have p: "(1::nat) < 4 \<and> paired [5, 4, - 1, - 1, 1, 0] 1 4" by (simp add: paired_def)
  from one_edge_per_pair [OF example_valid, of "''black''"]
  have "\<forall>i j. i < j \<and> paired [5, 4, - 1, - 1, 1, 0] i j \<longrightarrow>
            filter (\<lambda>e. {e_from e, e_to e} = {int i, int j})
              (pairs_of ''black'' [5, 4, - 1, - 1, 1, 0])
              = [\<lparr>e_from = int i, e_to = int j, e_p = 1, e_color = ''black''\<rparr>]"
    by (rule conjunct1)
  then have "(1::nat) < 4 \<and> paired [5, 4, - 1, - 1, 1, 0] 1 4 \<longrightarrow>
            filter (\<lambda>e. {e_from e, e_to e} = {int 1, int 4})
              (pairs_of ''black'' [5, 4, - 1, - 1, 1, 0])
              = [\<lparr>e_from = int 1, e_to = int 4, e_p = 1, e_color = ''black''\<rparr>]"
    by (elim allE)
  with p have "filter (\<lambda>e. {e_from e, e_to e} = {int 1, int 4})
              (pairs_of ''black'' [5, 4, - 1, - 1, 1, 0])
              = [\<lparr>e_from = int 1, e_to = int 4, e_p = 1, e_color = ''black''\<rparr>]"
    by (rule rev_mp)
  then have "filter (\<lambda>e. {e_from e, e_to e} = {1, 4})
              (pairs_of ''black'' [5, 4, - 1, - 1, 1, 0])
              = [\<lparr>e_from = 1, e_to = 4, e_p = 1, e_color = ''black''\<rparr>]"
    by simp
  with example_valid p show ?thesis
    by (simp add: example_pairs)
qed

subsection \<open>Failure of a step\<close>

lemma draw_Inl:
  assumes "RNADrawer_draw env self ss seq filename color_str render_type default_color
      color_palette data draw_params w = (Inl e, self', w')"
  shows "(\<exists>col. resolve_colors env (self_colorer (RNADrawer_setup self draw_params))
        (case seq of None \<Rightarrow> replicate (length ss) (CHR '' '') | Some s \<Rightarrow> s)
        ss color_str render_type default_color color_palette data = (Inl e, col) \<and> w' = w)
     \<or> (\<exists>cols col. resolve_colors env (self_colorer (RNADrawer_setup self draw_params))
        (case seq of None \<Rightarrow> replicate (length ss) (CHR '' '') | Some s \<Rightarrow> s)
        ss color_str render_type default_color color_palette data = (Inr cols, col)
       \<and> RNADrawer_render env
        (case seq of None \<Rightarrow> replicate (length ss) (CHR '' '') | Some s \<Rightarrow> s)
        ss cols filename (self_draw_params (RNADrawer_setup self draw_params)) w = (Inl e, w'))"
  using assms unfolding RNADrawer_draw_def Let_def
  by (auto split: prod.splits sum.splits)

lemma draw_colors_fail:
  assumes "fst (resolve_colors env (self_colorer (RNADrawer_setup self draw_params))
        (case seq of None \<Rightarrow> replicate (length ss) (CHR '' '') | Some s \<Rightarrow> s)
        ss color_str render_type default_color color_palette data) = Inl e"
  shows "\<exists>self'. RNADrawer_draw env self ss seq filename color_str render_type default_color
      color_palette data draw_params w = (Inl e, self', w)"
  using assms unfolding RNADrawer_draw_def Let_def
  by (auto split: prod.splits sum.splits)

lemma draw_colors_ok:
  assumes "fst (resolve_colors env (self_colorer (RNADrawer_setup self draw_params))
        (case seq of None \<Rightarrow> replicate (length ss) (CHR '' '') | Some s \<Rightarrow> s)
        ss color_str render_type default_color color_palette data) = Inr cols"
  shows "\<exists>self'. RNADrawer_draw env self ss seq filename color_str render_type default_color
      color_palette data draw_params w =
     (fst (RNADrawer_render env
        (case seq of None \<Rightarrow> replicate (length ss) (CHR '' '') | Some s \<Rightarrow> s)
        ss cols filename (self_draw_params (RNADrawer_setup self draw_params)) w), self',
      snd (RNADrawer_render env
        (case seq of None \<Rightarrow> replicate (length ss) (CHR '' '') | Some s \<Rightarrow> s)
        ss cols filename (self_draw_params (RNADrawer_setup self draw_params)) w))"
  using assms unfolding RNADrawer_draw_def Let_def
  by (auto split: prod.splits sum.splits)

lemma render_pairmap_fail:
  "get_pairmap_from_secstruct env ss = Inl e \<Longrightarrow>
   RNADrawer_render env seq ss colors filename params w = (Inl e, w)"
  by (simp add: RNADrawer_render_def bind_in_def)

lemma render_layout_fail:
  "get_pairmap_from_secstruct env ss = Inr pm \<Longrightarrow>
   setup_tree env ss (NODE_R params) (PRIMARY_SPACE params) (PAIR_SPACE params) = Inl e \<Longrightarrow>
   RNADrawer_render env seq ss colors filename params w = (Inl e, w)"
  by (simp add: RNADrawer_render_def bind_in_def)

text \<open>
  Claim C8: when a step of a draw request fails, the exception is the result of the call
  and no image file is written. For every call of \<^verbatim>\<open>draw\<close>: a call that ends in an
  exception has written no file; an exception of the color resolution, of the structure
  parsing or of the layout is the exception of the call, with the trace unchanged; and a
  call that has written a file has returned a figure, has written the one file
  \<^verbatim>\<open>filename + ".png"\<close>, and its color resolution, structure parsing and layout have
  all returned.
\<close>

theorem failure_writes_no_file:
  assumes run: "RNADrawer_draw env self ss seq filename color_str render_type default_color
      color_palette data draw_params w = (res, self', w')"
  shows
   "(\<forall>e. res = Inl e \<longrightarrow> saved_files w' = saved_files w)
  \<and> (\<forall>e. fst (resolve_colors env (self_colorer (RNADrawer_setup self draw_params))
        (case seq of None \<Rightarrow> replicate (length ss) (CHR '' '') | Some s \<Rightarrow> s)
        ss color_str render_type default_color color_palette data) = Inl e
      \<longrightarrow> res = Inl e \<and> w' = w)
  \<and> (\<forall>e cols. fst (resolve_colors env (self_colorer (RNADrawer_setup self draw_params))
        (case seq of None \<Rightarrow> replicate (length ss) (CHR '' '') | Some s \<Rightarrow> s)
        ss color_str render_type default_color color_palette data) = Inr cols
      \<and> get_pairmap_from_secstruct env ss = Inl e
      \<longrightarrow> res = Inl e \<and> w' = w)
  \<and> (\<forall>e cols pm. fst (resolve_colors env (self_colorer (RNADrawer_setup self draw_params))
        (case seq of None \<Rightarrow> replicate (length ss) (CHR '' '') | Some s \<Rightarrow> s)
        ss color_str render_type default_color color_palette data) = Inr cols
      \<and> get_pairmap_from_secstruct env ss = Inr pm
      \<and> setup_tree env ss (NODE_R (self_draw_params (RNADrawer_setup self draw_params)))
           (PRIMARY_SPACE (self_draw_params (RNADrawer_setup self draw_params)))
           (PAIR_SPACE (self_draw_params (RNADrawer_setup self draw_params))) = Inl e
      \<longrightarrow> res = Inl e \<and> w' = w)
  \<and> (saved_files w' \<noteq> saved_files w \<longrightarrow>
        (\<exists>fig. res = Inr fig)
      \<and> saved_files w' = saved_files w @ [filename @ ''.png'']
      \<and> (\<exists>cols. fst (resolve_colors env (self_colorer (RNADrawer_setup self draw_params))
        (case seq of None \<Rightarrow> replicate (length ss) (CHR '' '') | Some s \<Rightarrow> s)
        ss color_str render_type default_color color_palette data) = Inr cols)
      \<and> (\<exists>pm. get_pairmap_from_secstruct env ss = Inr pm)
      \<and> (\<exists>lay. setup_tree env ss (NODE_R (self_draw_params (RNADrawer_setup self draw_params)))
           (PRIMARY_SPACE (self_draw_params (RNADrawer_setup self draw_params)))
           (PAIR_SPACE (self_draw_params (RNADrawer_setup self draw_params))) = Inr lay))"
  (is "?A \<and> ?B1 \<and> ?B2 \<and> ?B3 \<and> ?C")
proof -
  let ?seq = "case seq of None \<Rightarrow> replicate (length ss) (CHR '' '') | Some s \<Rightarrow> s"
  let ?params = "self_draw_params (RNADrawer_setup self draw_params)"
  let ?colors = "resolve_colors env (self_colorer (RNADrawer_setup self draw_params))
        ?seq ss color_str render_type default_color color_palette data"
  have A: "saved_files w' = saved_files w" if "res = Inl e" for e
  proof -
    from draw_Inl [OF run [unfolded that]] render_Inl
    have "w' = w \<or> w' = w @ [CurveFit rna_area rna_figsize_variable]" by blast
    then show ?thesis by auto
  qed
  then have a: ?A by blast
  have b1: ?B1
  proof (intro allI impI)
    fix e assume "fst ?colors = Inl e"
    from draw_colors_fail [OF this, of filename w] run show "res = Inl e \<and> w' = w" by auto
  qed
  have b2: ?B2
  proof (intro allI impI)
    fix e cols assume h: "fst ?colors = Inr cols \<and> get_pairmap_from_secstruct env ss = Inl e"
    then have c: "fst ?colors = Inr cols" and p: "get_pairmap_from_secstruct env ss = Inl e"
      by simp_all
    from draw_colors_ok [OF c, of filename w] run show "res = Inl e \<and> w' = w"
      by (auto simp: render_pairmap_fail [OF p])
  qed
  have b3: ?B3
  proof (intro allI impI)
    fix e cols pm
    assume h: "fst ?colors = Inr cols \<and> get_pairmap_from_secstruct env ss = Inr pm
      \<and> setup_tree env ss (NODE_R ?params) (PRIMARY_SPACE ?params) (PAIR_SPACE ?params) = Inl e"
    then have c: "fst ?colors = Inr cols" and p: "get_pairmap_from_secstruct env ss = Inr pm"
      and l: "setup_tree env ss (NODE_R ?params) (PRIMARY_SPACE ?params) (PAIR_SPACE ?params)
        = Inl e"
      by simp_all
    from draw_colors_ok [OF c, of filename w] run show "res = Inl e \<and> w' = w"
      by (auto simp: render_layout_fail [OF p l])
  qed
  have c: ?C
  proof
    assume ne: "saved_files w' \<noteq> saved_files w"
    show "(\<exists>fig. res = Inr fig)
      \<and> saved_files w' = saved_files w @ [filename @ ''.png'']
      \<and> (\<exists>cols. fst ?colors = Inr cols)
      \<and> (\<exists>pm. get_pairmap_from_secstruct env ss = Inr pm)
      \<and> (\<exists>lay. setup_tree env ss (NODE_R ?params) (PRIMARY_SPACE ?params) (PAIR_SPACE ?params)
            = Inr lay)"
    proof (cases res)
      case (Inl e)
      with A ne show ?thesis by blast
    next
      case (Inr fig)
      from draw_Inr [OF run [unfolded Inr]] obtain cols col where
        c: "?colors = (Inr cols, col)"
        and r: "RNADrawer_render env ?seq ss cols filename ?params w = (Inr fig, w')"
        by blast
      from render_Inr [OF r] c Inr show ?thesis by auto
    qed
  qed
  from a b1 b2 b3 c show ?thesis by (intro conjI)
qed

subsection \<open>The calls of \<^verbatim>\<open>draw\<close>, unfolded\<close>

lemma draw_unfold:
  "RNADrawer_draw env self ss seq filename color_str render_type default_color color_palette
      data draw_params w =
   (case fst (resolve_colors env (self_colorer (RNADrawer_setup self draw_params))
        (case seq of None \<Rightarrow> replicate (length ss) (CHR '' '') | Some s \<Rightarrow> s)
        ss color_str render_type default_color color_palette data) of
      Inl e \<Rightarrow>
        (Inl e,
         (RNADrawer_setup self draw_params)\<lparr>self_colorer :=
           snd (resolve_colors env (self_colorer (RNADrawer_setup self draw_params))
             (case seq of None \<Rightarrow> replicate (length ss) (CHR '' '') | Some s \<Rightarrow> s)
             ss color_str render_type default_color color_palette data)\<rparr>, w)
    | Inr cols \<Rightarrow>
        (fst (RNADrawer_render env
           (case seq of None \<Rightarrow> replicate (length ss) (CHR '' '') | Some s \<Rightarrow> s)
           ss cols filename (self_draw_params (RNADrawer_setup self draw_params)) w),
         (RNADrawer_setup self draw_params)\<lparr>self_colorer :=
           snd (resolve_colors env (self_colorer (RNADrawer_setup self draw_params))
             (case seq of None \<Rightarrow> replicate (length ss) (CHR '' '') | Some s \<Rightarrow> s)
             ss color_str render_type default_color color_palette data)\<rparr>,
         snd (RNADrawer_render env
           (case seq of None \<Rightarrow> replicate (length ss) (CHR '' '') | Some s \<Rightarrow> s)
           ss cols filename (self_draw_params (RNADrawer_setup self draw_params)) w)))"
  unfolding RNADrawer_draw_def Let_def
  by (simp add: case_prod_beta split: sum.splits)

lemma setup_Some_params [simp]: "self_draw_params (RNADrawer_setup self (Some p)) = p"
  and setup_None [simp]: "RNADrawer_setup self None = self"
  and setup_colorer [simp]: "self_colorer (RNADrawer_setup self draw_params) = self_colorer self"
  by (simp_all add: RNADrawer_setup_def split: option.splits)

lemma draw_stored_params:
  "self_draw_params (fst (snd (RNADrawer_draw env self ss seq filename color_str render_type
      default_color color_palette data draw_params w)))
   = (case draw_params of None \<Rightarrow> self_draw_params self | Some p \<Rightarrow> p)"
  by (cases draw_params) (simp_all add: draw_unfold split: sum.splits)

lemma draw_given_params:
  assumes "self_colorer a = self_colorer b"
  shows "fst (RNADrawer_draw env a ss seq filename color_str render_type
      default_color color_palette data (Some p) w)
    = fst (RNADrawer_draw env b ss seq filename color_str render_type
      default_color color_palette data (Some p) w)
    \<and> snd (snd (RNADrawer_draw env a ss seq filename color_str render_type
      default_color color_palette data (Some p) w))
    = snd (snd (RNADrawer_draw env b ss seq filename color_str render_type
      default_color color_palette data (Some p) w))"
  using assms by (simp add: draw_unfold split: sum.splits)

lemma draw_None_params:
  "RNADrawer_draw env self ss seq filename color_str render_type default_color
      color_palette data None w
   = RNADrawer_draw env self ss seq filename color_str render_type default_color color_palette
      data (Some (self_draw_params self)) w"
  by (simp add: RNADrawer_draw_def RNADrawer_setup_def)


lemma example_pairmap_fail:
  "get_pairmap_from_secstruct example_env ''((..)'' = Inl (Raised ''UnbalancedStructureError'')"
  by (simp add: example_env_def parse_def bracket_open_def bracket_close_def)

lemma example_colors_short:
  "resolve_colors example_env None ''     '' ''((..)'' None None None None None
     = (Inr [''black'', ''black'', ''black'', ''black'', ''black''], None)"
  by (simp add: resolve_colors_def set_palette_def bind_in_def example_env_def plain_colors_def)

lemma example_draw_unbalanced:
  "RNADrawer_draw example_env new_drawer ''((..)'' None ''out'' None None None None None None []
     = (Inl (Raised ''UnbalancedStructureError''), new_drawer, [])"
  by (simp add: draw_unfold new_drawer_colorer example_colors_short
      render_pairmap_fail [OF example_pairmap_fail])

lemma example_colors_fail:
  "resolve_colors example_env None ''      '' ''((..))'' None None None None (Some [1])
     = (Inl (Raised ''DataLengthMismatchError''), None)"
  by (simp add: resolve_colors_def set_palette_def bind_in_def example_env_def plain_colors_def)

lemma example_draw_bad_data:
  "RNADrawer_draw example_env new_drawer ''((..))'' None ''out'' None None None None (Some [1])
     None [] = (Inl (Raised ''DataLengthMismatchError''), new_drawer, [])"
  by (simp add: draw_unfold new_drawer_colorer example_colors_fail)

lemma example_draw_hairpin:
  "RNADrawer_draw example_env new_drawer ''((..))'' None ''out'' None None None None None None []
     = (Inr (example_figure example_params ''      ''), new_drawer,
        [CurveFit rna_area rna_figsize_variable, SaveFig ''out.png''])"
  using draw_hairpin_new [of "[]"] by (simp add: draw_hairpin_def)

theorem failure_writes_no_file_witness:
  "RNADrawer_draw example_env new_drawer ''((..)'' None ''out'' None None None None None None []
     = (Inl (Raised ''UnbalancedStructureError''), new_drawer, [])
 \<and> get_pairmap_from_secstruct example_env ''((..)'' = Inl (Raised ''UnbalancedStructureError'')
 \<and> RNADrawer_draw example_env new_drawer ''((..))'' None ''out'' None None None None (Some [1])
     None [] = (Inl (Raised ''DataLengthMismatchError''), new_drawer, [])
 \<and> saved_files [] = saved_files []
 \<and> RNADrawer_draw example_env new_drawer ''((..))'' None ''out'' None None None None None None []
     = (Inr (example_figure example_params ''      ''), new_drawer,
        [CurveFit rna_area rna_figsize_variable, SaveFig ''out.png''])
 \<and> saved_files [CurveFit rna_area rna_figsize_variable, SaveFig ''out.png'']
     \<noteq> saved_files []
 \<and> saved_files [CurveFit rna_area rna_figsize_variable, SaveFig ''out.png'']
     = saved_files [] @ [''out'' @ ''.png'']"
proof -
  note failed = failure_writes_no_file [OF example_draw_unbalanced]
  from failed [THEN conjunct1, THEN spec, THEN mp, OF refl]
  have 1: "saved_files [] = saved_files []" .
  have ne: "saved_files [CurveFit rna_area rna_figsize_variable, SaveFig ''out.png'']
     \<noteq> saved_files []"
    by simp
  note finished = failure_writes_no_file [OF example_draw_hairpin]
  from finished [THEN conjunct2, THEN conjunct2, THEN conjunct2, THEN conjunct2, THEN mp, OF ne]
  have 2: "saved_files [CurveFit rna_area rna_figsize_variable, SaveFig ''out.png'']
     = saved_files [] @ [''out'' @ ''.png'']"
    by (elim conjE)
  from example_draw_unbalanced example_pairmap_fail example_draw_bad_data 1
    example_draw_hairpin ne 2
  show ?thesis by (intro conjI)
qed

subsection \<open>The state that an object keeps\<close>

text \<open>
  Claim C2: two calls of \<^verbatim>\<open>draw\<close> with the same arguments give the same result
  whatever calls came before on the object. This fails for \<^verbatim>\<open>draw_params=None\<close>
  (the two calls compared below). What holds: \<^verbatim>\<open>__setup\<close> stores the
  parameters it is given, so a call with \<^verbatim>\<open>draw_params=None\<close> is the call with the
  parameters stored in the object; after any call the object stores the parameters the
  call was given, or the ones it had when the call gave none; and a call that gives its
  parameters depends on the object only through its colorer: on two objects with the
  same colorer state it returns the same result and the same trace.
\<close>

theorem draw_params_are_kept:
  "RNADrawer_draw env self ss seq filename color_str render_type default_color color_palette
      data None w
   = RNADrawer_draw env self ss seq filename color_str render_type default_color color_palette
      data (Some (self_draw_params self)) w
 \<and> self_draw_params (fst (snd (RNADrawer_draw env self ss seq filename color_str render_type
      default_color color_palette data draw_params w)))
   = (case draw_params of None \<Rightarrow> self_draw_params self | Some p \<Rightarrow> p)
 \<and> (self_colorer self = self_colorer other \<longrightarrow>
      fst (RNADrawer_draw env self ss seq filename color_str render_type
        default_color color_palette data (Some p) w)
      = fst (RNADrawer_draw env other ss seq filename color_str render_type
        default_color color_palette data (Some p) w)
    \<and> snd (snd (RNADrawer_draw env self ss seq filename color_str render_type
        default_color color_palette data (Some p) w))
      = snd (snd (RNADrawer_draw env other ss seq filename color_str render_type
        default_color color_palette data (Some p) w)))"
proof (intro conjI impI)
  show "RNADrawer_draw env self ss seq filename color_str render_type default_color
      color_palette data None w
   = RNADrawer_draw env self ss seq filename color_str render_type default_color color_palette
      data (Some (self_draw_params self)) w"
    by (rule draw_None_params)
  show "self_draw_params (fst (snd (RNADrawer_draw env self ss seq filename color_str
      render_type default_color color_palette data draw_params w)))
   = (case draw_params of None \<Rightarrow> self_draw_params self | Some p \<Rightarrow> p)"
    by (rule draw_stored_params)
next
  assume same: "self_colorer self = self_colorer other"
  from draw_given_params [OF same]
  show "fst (RNADrawer_draw env self ss seq filename color_str render_type
        default_color color_palette data (Some p) w)
      = fst (RNADrawer_draw env other ss seq filename color_str render_type
        default_color color_palette data (Some p) w)"
    by (rule conjunct1)
  from draw_given_params [OF same]
  show "snd (snd (RNADrawer_draw env self ss seq filename color_str render_type
        default_color color_palette data (Some p) w))
      = snd (snd (RNADrawer_draw env other ss seq filename color_str render_type
        default_color color_palette data (Some p) w))"
    by (rule conjunct2)
qed

text \<open>
  The hairpin drawn with \<^verbatim>\<open>draw_params=None\<close> on the object left by a call that gave
  \<open>custom_params\<close>, and on a new object: the two figures differ.
\<close>

lemma after_custom_eq: "after_custom = new_drawer\<lparr>self_draw_params := custom_params\<rparr>"
proof -
  have "draw_hairpin new_drawer (Some custom_params) [] =
    (Inr (example_figure custom_params ''      ''),
     RNADrawer_setup new_drawer (Some custom_params),
     [CurveFit rna_area rna_figsize_variable, SaveFig ''out.png''])"
    unfolding draw_hairpin_def
    by (subst example_draw) (simp_all add: custom_params_def)
  then show ?thesis
    by (simp add: after_custom_def RNADrawer_setup_def)
qed

lemma draw_hairpin_after_custom:
  "draw_hairpin after_custom None [] =
     (Inr (example_figure custom_params ''      ''), after_custom,
      [CurveFit rna_area rna_figsize_variable, SaveFig ''out.png''])"
  unfolding draw_hairpin_def
  by (subst example_draw) (simp_all add: after_custom_eq custom_params_def)

theorem draw_depends_on_earlier_call:
  "fst (draw_hairpin after_custom None []) \<noteq> fst (draw_hairpin new_drawer None [])"
  by (simp add: draw_hairpin_after_custom draw_hairpin_new example_figure_def
      custom_params_def example_params_def)

theorem draw_params_are_kept_witness:
  "self_colorer after_custom = self_colorer new_drawer
 \<and> fst (draw_hairpin after_custom (Some example_params) [])
     = fst (draw_hairpin new_drawer (Some example_params) [])
 \<and> draw_hairpin after_custom None []
     = draw_hairpin after_custom (Some (self_draw_params after_custom)) []
 \<and> self_draw_params after_custom = custom_params"
proof -
  have c: "self_colorer after_custom = self_colorer new_drawer"
    by (simp add: after_custom_eq)
  note kept = draw_params_are_kept [where env = example_env and ss = "''((..))''"
      and seq = None and filename = "''out''" and color_str = None and render_type = None
      and default_color = None and color_palette = None and data = None and w = "[]"]
  note a = kept [where self = after_custom and other = new_drawer and p = example_params]
  note b = kept [where self = new_drawer and draw_params = "Some custom_params"]
  from a have 1: "draw_hairpin after_custom None []
     = draw_hairpin after_custom (Some (self_draw_params after_custom)) []"
    unfolding draw_hairpin_def by (rule conjunct1)
  from a [THEN conjunct2, THEN conjunct2, THEN mp, OF c]
  have 2: "fst (draw_hairpin after_custom (Some example_params) [])
     = fst (draw_hairpin new_drawer (Some example_params) [])"
    unfolding draw_hairpin_def by (rule conjunct1)
  from b [THEN conjunct2, THEN conjunct1]
  have 3: "self_draw_params after_custom = custom_params"
    unfolding after_custom_def draw_hairpin_def by (simp only: option.case)
  from c 2 1 3 show ?thesis by (intro conjI)
qed

subsection \<open>A sequence that is given\<close>

text \<open>
  Claim C3: a call of \<^verbatim>\<open>draw\<close> with a sequence whose length is not the length of the
  dot-bracket string is rejected before the layout. \<^verbatim>\<open>draw\<close> has no such check
  (the run shown below). What holds: a sequence that is given is handed on as
  it is. When the call returns a figure, the colors were resolved for that sequence and
  \<^verbatim>\<open>r.draw\<close> was given that sequence and those colors; and whenever the color
  resolution returns, the result of the call is the result of \<^verbatim>\<open>__render\<close> on that
  sequence, whatever its length.
\<close>

theorem supplied_seq_is_not_checked:
  "(RNADrawer_draw env self ss (Some s) filename color_str render_type default_color
      color_palette data draw_params w = (Inr fig, self', w')
    \<longrightarrow> (\<exists>cols col call.
          resolve_colors env (self_colorer (RNADrawer_setup self draw_params)) s ss color_str
            render_type default_color color_palette data = (Inr cols, col)
        \<and> drawn fig = Some call \<and> dc_seq call = s \<and> dc_colors call = cols))
 \<and> (fst (resolve_colors env (self_colorer (RNADrawer_setup self draw_params)) s ss color_str
            render_type default_color color_palette data) = Inr cols
    \<longrightarrow> fst (RNADrawer_draw env self ss (Some s) filename color_str render_type default_color
           color_palette data draw_params w)
        = fst (RNADrawer_render env s ss cols filename
            (self_draw_params (RNADrawer_setup self draw_params)) w))"
proof (intro conjI impI)
  assume "RNADrawer_draw env self ss (Some s) filename color_str render_type default_color
      color_palette data draw_params w = (Inr fig, self', w')"
  from draw_Inr [OF this] obtain cols col where
    c: "resolve_colors env (self_colorer (RNADrawer_setup self draw_params)) s ss color_str
            render_type default_color color_palette data = (Inr cols, col)"
    and r: "RNADrawer_render env s ss cols filename
        (self_draw_params (RNADrawer_setup self draw_params)) w = (Inr fig, w')"
    by auto
  from render_Inr [OF r] c
  show "\<exists>cols col call.
          resolve_colors env (self_colorer (RNADrawer_setup self draw_params)) s ss color_str
            render_type default_color color_palette data = (Inr cols, col)
        \<and> drawn fig = Some call \<and> dc_seq call = s \<and> dc_colors call = cols"
    by auto
next
  assume "fst (resolve_colors env (self_colorer (RNADrawer_setup self draw_params)) s ss
      color_str render_type default_color color_palette data) = Inr cols"
  then show "fst (RNADrawer_draw env self ss (Some s) filename color_str render_type
      default_color color_palette data draw_params w)
        = fst (RNADrawer_render env s ss cols filename
            (self_draw_params (RNADrawer_setup self draw_params)) w)"
    unfolding RNADrawer_draw_def Let_def by (auto split: prod.splits sum.splits)
qed

text \<open>
  With the color resolver of the specification, the hairpin of six residues and the
  sequence \<open>A\<close> of length one are laid out, drawn and saved.
\<close>

lemma draw_short_seq:
  "RNADrawer_draw example_env new_drawer ''((..))'' (Some ''A'') ''out'' None None None None None
      None [] =
     (Inr (example_figure example_params ''A''), new_drawer,
      [CurveFit rna_area rna_figsize_variable, SaveFig ''out.png''])"
  by (subst example_draw)
     (simp_all add: RNADrawer_setup_def new_drawer_params example_params_def)

theorem short_seq_is_drawn:
  "length ''A'' \<noteq> length ''((..))''
 \<and> RNADrawer_draw example_env new_drawer ''((..))'' (Some ''A'') ''out'' None None None None None
      None [] =
     (Inr (example_figure example_params ''A''), new_drawer,
      [CurveFit rna_area rna_figsize_variable, SaveFig ''out.png''])"
  using draw_short_seq by simp

theorem supplied_seq_is_not_checked_witness:
  "length ''AC'' \<noteq> length ''((..))''
 \<and> (\<exists>call. drawn (example_figure example_params ''AC'') = Some call \<and> dc_seq call = ''AC'')"
proof -
  have "RNADrawer_draw example_env new_drawer ''((..))'' (Some ''AC'') ''out'' None None None
      None None None [] =
     (Inr (example_figure example_params ''AC''), new_drawer,
      [CurveFit rna_area rna_figsize_variable, SaveFig ''out.png''])"
    by (subst example_draw)
      (simp_all add: RNADrawer_setup_def new_drawer_params example_params_def)
  with supplied_seq_is_not_checked [of example_env new_drawer "''((..))''" "''AC''" "''out''"
      None None None None None None "[]" "example_figure example_params ''AC''" new_drawer
      "[CurveFit rna_area rna_figsize_variable, SaveFig ''out.png'']"]
  show ?thesis by auto
qed

subsection \<open>The fit of the size model\<close>

text \<open>
  Claim C7: the coefficients of the size model are fitted once and never again. They are
  fitted in every call of \<^verbatim>\<open>__render\<close> (the two draws shown below). What holds: the
  calibration table is the constant of lines 136 to 140, and a call of \<^verbatim>\<open>__render\<close>
  performs no fit or one fit, on that table; a call that returns a figure has performed
  exactly one, and the size of its figure is computed from the coefficients of that fit.
\<close>

theorem every_render_fits_again:
  assumes "RNADrawer_render env seq ss colors filename params w = (res, w')"
  shows "(fit_calls w' = fit_calls w
          \<or> fit_calls w' = fit_calls w @ [(rna_area, rna_figsize_variable)])
       \<and> (\<forall>fig. res = Inr fig \<longrightarrow>
            fit_calls w' = fit_calls w @ [(rna_area, rna_figsize_variable)]
          \<and> (\<exists>param. curve_fit env rna_area rna_figsize_variable = Inr param
                \<and> figure_size param (xarray fig) (yarray fig) = Inr (fig_size_inches fig)))"
proof (cases res)
  case (Inl e)
  from render_Inl [OF assms [unfolded Inl]] Inl show ?thesis by auto
next
  case (Inr fig)
  from render_Inr [OF assms [unfolded Inr]] Inr show ?thesis by auto
qed

text \<open>The hairpin drawn twice on one object: the trace holds two fits.\<close>

lemma drawn_twice_eq:
  "drawn_twice = [CurveFit rna_area rna_figsize_variable, SaveFig ''out.png'',
                  CurveFit rna_area rna_figsize_variable, SaveFig ''out.png'']"
  by (simp add: drawn_twice_def draw_hairpin_new)

theorem fitted_twice:
  "fit_calls drawn_twice = [(rna_area, rna_figsize_variable), (rna_area, rna_figsize_variable)]
 \<and> \<not> length (fit_calls drawn_twice) \<le> 1"
  by (simp add: drawn_twice_eq)

theorem every_render_fits_again_witness:
  "fit_calls [CurveFit rna_area rna_figsize_variable, SaveFig ''out.png'']
     = fit_calls [] @ [(rna_area, rna_figsize_variable)]
 \<and> (\<exists>param. curve_fit example_env rna_area rna_figsize_variable = Inr param
       \<and> figure_size param (xarray (example_figure example_params ''      ''))
           (yarray (example_figure example_params ''      ''))
          = Inr (fig_size_inches (example_figure example_params ''      '')))"
proof -
  have "RNADrawer_render example_env ''      '' ''((..))''
       [''black'', ''black'', ''black'', ''black'', ''black'', ''black''] ''out'' example_params []
     = (Inr (example_figure example_params ''      ''),
        [CurveFit rna_area rna_figsize_variable, SaveFig ''out.png''])"
    by (subst example_render) (simp_all add: example_params_def)
  from every_render_fits_again [OF this] show ?thesis by simp
qed

subsection \<open>The figure size that a call sets\<close>



text \<open>
  The guard of line 151 and the height of the bounding box: on a layout whose least x
  equals its least y, the rescale is skipped exactly when the height is zero, so that the
  power law is evaluated on layouts of non-zero height only.
\<close>

theorem rescale_skipped_iff_zero_height:
  assumes "py_min xs = Inr xmin" and "py_max xs = Inr xmax"
    and "py_min ys = Inr ymin" and "py_max ys = Inr ymax"
    and "xmin = ymin"
  shows "(figure_size param xs ys = Inr None) = (ymin = ymax)"
  using assms by (auto simp: figure_size_def bind_err_def Let_def)

theorem rescale_skipped_iff_zero_height_witness:
  "py_min [0, 20, 40, 60] = Inr 0 \<and> py_max [0, 20, 40, 60] = Inr 60
 \<and> py_min [0, 0, 0, 0] = Inr 0 \<and> py_max [0, 0, 0, 0] = Inr 0
 \<and> figure_size (1, 0, 1) [0, 20, 40, 60] [0, 0, 0, 0] = Inr None"
proof -
  have m: "py_min [0, 20, 40, 60] = Inr 0" "py_max [0, 20, 40, 60] = Inr 60"
    "py_min [0, 0, 0, 0] = Inr 0" "py_max [0, 0, 0, 0] = Inr 0"
    by (simp_all add: py_min_def py_max_def)
  from rescale_skipped_iff_zero_height [OF m refl, of "(1, 0, 1)"]
  have "figure_size (1, 0, 1) [0, 20, 40, 60] [0, 0, 0, 0] = Inr None" by simp
  with m show ?thesis by (intro conjI)
qed

end
